theory Spec2Isabelle
  imports Main
begin

section \<open>Python values and library calls used by \<^verbatim>\<open>outliner.py\<close>\<close>

text \<open>
  The program is one Python module with two classes: \<^verbatim>\<open>ChatOllama\<close>, a client that
  keeps a conversation history around a text-generation backend, and \<^verbatim>\<open>Outliner\<close>,
  which loads a transcript, chunks it, extracts insights per chunk and asks for an outline.

  Python strings are modelled as \<^typ>\<open>string\<close>, Python integers as \<^typ>\<open>int\<close>, and a method
  that mutates \<^verbatim>\<open>self\<close> returns the updated object next to its result. A raised
  exception is a value \<open>Inl e\<close> of \<open>exn + 'a\<close>. The type \<open>exn\<close> stands for the instances
  of \<^verbatim>\<open>Exception\<close>, the class the handler in \<^verbatim>\<open>generate_response\<close> catches; each
  constructor carries the message. Writing to standard output (\<^verbatim>\<open>print\<close>) and the wall
  clock (\<^verbatim>\<open>time.time\<close>) have no influence on any returned value and are left out.
\<close>

datatype exn =
    Exception string
  | ValueError string
  | FileNotFoundError string
  | TypeError string
  | KeyError string
  | IndexError string

text \<open>\<^verbatim>\<open>sep.join(xs)\<close>.\<close>

fun join :: "string \<Rightarrow> string list \<Rightarrow> string" where
  "join sep [] = []"
| "join sep [x] = x"
| "join sep (x # y # ys) = x @ sep @ join sep (y # ys)"

text \<open>\<^verbatim>\<open>xs[i]\<close> for a non-negative index: out of range raises \<^verbatim>\<open>IndexError\<close>.\<close>

definition getitem :: "'a list \<Rightarrow> nat \<Rightarrow> exn + 'a" where
  "getitem xs i =
     (if i < length xs then Inr (xs ! i) else Inl (IndexError ''list index out of range''))"

text \<open>\<^verbatim>\<open>s.endswith(suffix)\<close>.\<close>

definition endswith :: "string \<Rightarrow> string \<Rightarrow> bool" where
  "endswith s suffix =
     (length suffix \<le> length s \<and> drop (length s - length suffix) s = suffix)"

text \<open>\<^verbatim>\<open>os.path.join(a, b)\<close> on a POSIX system.\<close>

definition path_join :: "string \<Rightarrow> string \<Rightarrow> string" where
  "path_join a b =
     (if take 1 b = ''/'' then b
      else if a = [] \<or> endswith a ''/'' then a @ b
      else a @ ''/'' @ b)"

subsection \<open>Prompt templates\<close>

text \<open>
  The prompt classes of the \<^verbatim>\<open>langchain\<close> library format a template the way
  \<^verbatim>\<open>str.format\<close> does: \<^verbatim>\<open>{{\<close> and \<^verbatim>\<open>}}\<close> stand for one brace, \<^verbatim>\<open>{name}\<close> is replaced
  by the keyword argument of that name. \<open>vformat\<close> scans the template; its second argument
  is \<open>None\<close> in literal text and \<open>Some field\<close> while it reads a field name.
\<close>

definition emit :: "string \<Rightarrow> exn + string \<Rightarrow> exn + string" where
  "emit s r = (case r of Inl e \<Rightarrow> Inl e | Inr t \<Rightarrow> Inr (s @ t))"

fun vformat :: "(string \<times> string) list \<Rightarrow> string option \<Rightarrow> string \<Rightarrow> exn + string" where
  "vformat kwargs None [] = Inr []"
| "vformat kwargs None (c # cs) =
     (if c = CHR ''{'' then
        (case cs of
           [] \<Rightarrow> Inl (ValueError ''Single { encountered in format string'')
         | d # ds \<Rightarrow>
             if d = CHR ''{'' then emit ''{'' (vformat kwargs None ds)
             else vformat kwargs (Some []) cs)
      else if c = CHR ''}'' then
        (case cs of
           [] \<Rightarrow> Inl (ValueError ''Single } encountered in format string'')
         | d # ds \<Rightarrow>
             if d = CHR ''}'' then emit ''}'' (vformat kwargs None ds)
             else Inl (ValueError ''Single } encountered in format string''))
      else emit [c] (vformat kwargs None cs))"
| "vformat kwargs (Some field) [] = Inl (ValueError ''expected } before end of string'')"
| "vformat kwargs (Some field) (c # cs) =
     (if c = CHR ''}'' then
        (case map_of kwargs field of
           None \<Rightarrow> Inl (KeyError field)
         | Some v \<Rightarrow> emit v (vformat kwargs None cs))
      else vformat kwargs (Some (field @ [c])) cs)"

definition format_template :: "string \<Rightarrow> (string \<times> string) list \<Rightarrow> exn + string" where
  "format_template template kwargs = vformat kwargs None template"

text \<open>
  A chat message carries its role and its text; \<^verbatim>\<open>.content\<close> reads the text.
  \<open>format_messages\<close> is \<^verbatim>\<open>ChatPromptTemplate.from_messages([system_prompt,
  human_prompt]).format_prompt(**kwargs).to_messages()\<close>.
\<close>

datatype message = SystemMessage string | HumanMessage string | AIMessage string

fun content :: "message \<Rightarrow> string" where
  "content (SystemMessage s) = s"
| "content (HumanMessage s) = s"
| "content (AIMessage s) = s"

definition format_messages ::
  "string \<Rightarrow> string \<Rightarrow> (string \<times> string) list \<Rightarrow> exn + message list" where
  "format_messages system_template human_template kwargs =
     (case format_template system_template kwargs of
        Inl e \<Rightarrow> Inl e
      | Inr s \<Rightarrow>
          (case format_template human_template kwargs of
             Inl e \<Rightarrow> Inl e
           | Inr h \<Rightarrow> Inr [SystemMessage s, HumanMessage h]))"

section \<open>The completion client: class \<^verbatim>\<open>ChatOllama\<close>\<close>

text \<open>
  \<^verbatim>\<open>self.ollama\<close> is the backend object built by \<^verbatim>\<open>Ollama(model=..., temperature=...)\<close>.
  The only thing the program does with it is \<^verbatim>\<open>self.ollama._generate([prompt])\<close>, so the
  object is represented by what that call answers: given the prompt lists of the earlier
  calls and the current one, either an exception or the generations (a list of lists of
  generated texts, \<^verbatim>\<open>response.generations[i][j].text\<close>). A backend that samples, or that
  keeps state, is such a function of the calls made so far. \<open>ollama_calls\<close> records the
  prompt lists the backend has received.
\<close>

record chat_ollama =
  ollama :: "string list list \<Rightarrow> string list \<Rightarrow> exn + string list list"
  ollama_calls :: "string list list"
  conversation_history :: "string list"

definition ChatOllama_init ::
  "(string list list \<Rightarrow> string list \<Rightarrow> exn + string list list) \<Rightarrow> chat_ollama" where
  "ChatOllama_init backend =
     \<lparr>ollama = backend, ollama_calls = [], conversation_history = []\<rparr>"

definition add_to_history :: "chat_ollama \<Rightarrow> string \<Rightarrow> chat_ollama" where
  "add_to_history self message =
     self\<lparr>conversation_history := conversation_history self @ [message]\<rparr>"

definition format_prompt :: "chat_ollama \<Rightarrow> string" where
  "format_prompt self = join '' '' (conversation_history self)"

definition ollama_generate ::
  "chat_ollama \<Rightarrow> string list \<Rightarrow> (exn + string list list) \<times> chat_ollama" where
  "ollama_generate self prompts =
     (ollama self (ollama_calls self) prompts,
      self\<lparr>ollama_calls := ollama_calls self @ [prompts]\<rparr>)"

text \<open>The body of the \<^verbatim>\<open>try\<close> block of \<^verbatim>\<open>generate_response\<close>.\<close>

definition generate_try :: "chat_ollama \<Rightarrow> string \<Rightarrow> (exn + string) \<times> chat_ollama" where
  "generate_try self prompt =
     (case ollama_generate self [prompt] of
        (Inl e, self1) \<Rightarrow> (Inl e, self1)
      | (Inr generations, self1) \<Rightarrow>
          (case getitem generations 0 of
             Inl e \<Rightarrow> (Inl e, self1)
           | Inr first \<Rightarrow>
               (case getitem first 0 of
                  Inl e \<Rightarrow> (Inl e, self1)
                | Inr generated_text \<Rightarrow>
                    (Inr generated_text,
                     add_to_history self1 (''Bot: '' @ generated_text)))))"

text \<open>
  \<^verbatim>\<open>generate_response\<close>: the user turn is appended before the \<^verbatim>\<open>try\<close>; the handler
  \<^verbatim>\<open>except Exception\<close> turns every exception of the body into the fixed reply.
\<close>

definition generate_response :: "chat_ollama \<Rightarrow> string \<Rightarrow> (exn + string) \<times> chat_ollama" where
  \<open>generate_response self user_input =
     (let self1 = add_to_history self (''User: '' @ user_input);
          prompt = format_prompt self1
      in case generate_try self1 prompt of
           (Inl e, self2) \<Rightarrow> (Inr ''Sorry, I couldn\'t generate a response.'', self2)
         | (Inr generated_text, self2) \<Rightarrow> (Inr generated_text, self2))\<close>

section \<open>The pipeline: class \<^verbatim>\<open>Outliner\<close>\<close>

text \<open>
  \<^verbatim>\<open>self.chat\<close> is an attribute, and the methods apply it to the prompt messages as
  \<^verbatim>\<open>self.chat(messages)\<close>. What the call does depends on the object stored there.
  The constructor stores a \<^verbatim>\<open>ChatOllama\<close>; that class defines \<^verbatim>\<open>add_to_history\<close>,
  \<^verbatim>\<open>format_prompt\<close> and \<^verbatim>\<open>generate_response\<close> and no \<^verbatim>\<open>__call__\<close>, so applying an
  instance raises \<^verbatim>\<open>TypeError\<close>. A callable object (a chat model of the library, or a
  stub) answers with a message or raises; like the backend above it is represented by its
  answer as a function of the earlier calls, and the calls it received are recorded.
\<close>

datatype chat_obj =
    ChatOllamaObj chat_ollama
  | CallableObj "message list list \<Rightarrow> message list \<Rightarrow> exn + message" "message list list"

fun call_obj :: "chat_obj \<Rightarrow> message list \<Rightarrow> (exn + message) \<times> chat_obj" where
  \<open>call_obj (ChatOllamaObj c) messages =
     (Inl (TypeError ''\'ChatOllama\' object is not callable''), ChatOllamaObj c)\<close>
| \<open>call_obj (CallableObj f calls) messages =
     (f calls messages, CallableObj f (calls @ [messages]))\<close>

text \<open>A chunk is a library \<^verbatim>\<open>Document\<close>; the program reads its \<^verbatim>\<open>page_content\<close> only.\<close>

record document =
  page_content :: string

record outliner =
  raw_transcript :: string
  chat :: chat_obj

text \<open>
  \<^verbatim>\<open>Outliner.__init__\<close>. The file system enters through \<open>listdir\<close> (\<^verbatim>\<open>os.listdir\<close>) and
  \<open>read_text\<close> (\<^verbatim>\<open>open(path, "r", encoding="utf-8").read()\<close>), both of which may raise;
  \<open>script_dir\<close> is the directory of the module and \<open>backend\<close> the object that
  \<^verbatim>\<open>Ollama(model="llama3-70b", temperature=0.7)\<close> returns. An \<open>input_filename\<close> that is
  \<^verbatim>\<open>None\<close> or the empty string is false in \<^verbatim>\<open>if input_filename:\<close>.
  \<open>select_transcript\<close> is the middle of the constructor, from the test for an empty list of
  transcripts to the path of the file to open; \<open>Outliner_init\<close> is the whole of it.
\<close>

definition truthy :: "string option \<Rightarrow> bool" where
  "truthy input_filename =
     (case input_filename of None \<Rightarrow> False | Some name \<Rightarrow> name \<noteq> [])"

definition select_transcript ::
  "string \<Rightarrow> string list \<Rightarrow> string option \<Rightarrow> exn + string" where
  "select_transcript folder_path transcript_files input_filename =
     (case transcript_files of
        [] \<Rightarrow> Inl (ValueError ''No transcript files found in the folder.'')
      | first # others \<Rightarrow>
          (if truthy input_filename then
             (if the input_filename \<in> set transcript_files
              then Inr (path_join folder_path (the input_filename))
              else Inl (FileNotFoundError
                     (''The specified file '' @ the input_filename @
                      '' does not exist in the Transcripts folder.'')))
           else Inr (path_join folder_path first)))"

definition Outliner_init ::
  "string \<Rightarrow> (string \<Rightarrow> exn + string list) \<Rightarrow> (string \<Rightarrow> exn + string) \<Rightarrow>
   (string list list \<Rightarrow> string list \<Rightarrow> exn + string list list) \<Rightarrow>
   string option \<Rightarrow> exn + outliner" where
  "Outliner_init script_dir listdir read_text backend input_filename =
     (let folder_path = path_join script_dir ''Transcripts'' in
      case listdir folder_path of
        Inl e \<Rightarrow> Inl e
      | Inr names \<Rightarrow>
          (let transcript_files = filter (\<lambda>f. endswith f ''.txt'') names in
           case select_transcript folder_path transcript_files input_filename of
             Inl e \<Rightarrow> Inl e
           | Inr transcript_file_path \<Rightarrow>
               (case read_text transcript_file_path of
                  Inl e \<Rightarrow> Inl e
                | Inr contents \<Rightarrow>
                    Inr \<lparr>raw_transcript = contents,
                         chat = ChatOllamaObj (ChatOllama_init backend)\<rparr>)))"



text \<open>
  \<^verbatim>\<open>transcript_splitter\<close>. The chunks are computed by the library:
  \<open>markdown_splitter chunk_size chunk_overlap texts\<close> is
  \<^verbatim>\<open>MarkdownTextSplitter(chunk_size=chunk_size, chunk_overlap=chunk_overlap)
  .create_documents(texts)\<close>. The method passes the two sizes and the transcript and
  nothing else (no length function).
\<close>

definition transcript_splitter ::
  "(int \<Rightarrow> int \<Rightarrow> string list \<Rightarrow> exn + document list) \<Rightarrow> outliner \<Rightarrow> int \<Rightarrow> int \<Rightarrow>
   exn + document list" where
  "transcript_splitter markdown_splitter self chunk_size chunk_overlap =
     markdown_splitter chunk_size chunk_overlap [raw_transcript self]"

text \<open>
  The templates of \<^verbatim>\<open>transcript2insights\<close>, as the string literals of the source: a
  backslash at the end of a source line joins the line to the next, whose indentation
  stays in the text.
\<close>

definition insights_system_template :: string where
  \<open>insights_system_template =
     ''You are a helpful assistant that summarizes transcripts of podcasts or'' @
     '' lectures.''\<close>

definition insights_human_template :: string where
  \<open>insights_human_template =
     ''From this chunk of a presentation transcript, extract a short list of'' @
     '' key insights.             Skip explaining what you\'re doing, labeling'' @
     '' the insights and writing conclusion paragraphs.             The'' @
     '' insights have to be phrased as statements of facts with no references'' @
     '' to the presentation or the transcript.             Statements have to'' @
     '' be full sentences and in terms of words and phrases as close as'' @
     '' possible to those used in the transcript.             Keep as much'' @
     '' detail as possible. The transcript of the presentation is delimited in'' @
     '' triple backticks.\<newline>'' @
     ''\<newline>'' @
     ''            Desired output format:\<newline>'' @
     ''            - [Key insight #1]\<newline>'' @
     ''            - [Key insight #2]\<newline>'' @
     ''            - [...]\<newline>'' @
     ''\<newline>'' @
     ''            Transcript:\<newline>'' @
     ''            ```{transcript}```''\<close>

text \<open>The templates of \<^verbatim>\<open>create_blueprint\<close>.\<close>

definition blueprint_system_template :: string where
  \<open>blueprint_system_template =
     ''You are a helpful AI blogger who writes essays on technical topics.''\<close>

definition blueprint_human_template :: string where
  \<open>blueprint_human_template =
     ''Organize the provided key insights into a structured JSON outline for a'' @
     '' blog post. Follow these steps:\<newline>'' @
     ''\<newline>'' @
     ''        1. Identify and number each key insight.\<newline>'' @
     ''        2. Cluster similar insights into groups, with each group'' @
     '' containing 3-5 insights related to a specific topic.\<newline>'' @
     ''        3. Combine these topics into higher-level themes, each'' @
     '' consisting of 3-5 related topics.\<newline>'' @
     ''        4. Structure these themes in a logical order, with the most'' @
     '' overarching theme at the top as the thesis statement of the blog post.\<newline>'' @
     ''        5. Within each theme, list the topics as supporting arguments,'' @
     '' and under each topic, list the corresponding insights as pieces of'' @
     '' evidence.\<newline>'' @
     ''        6. Ensure all insights are kept as full sentences with their'' @
     '' original wording and retain technical details.\<newline>'' @
     ''        7. Label each layer appropriately as \'Thesis Statement\','' @
     '' \'Supporting Arguments\', and \'Evidence\'.\<newline>'' @
     ''\<newline>'' @
     ''        The output should be in JSON format, focusing solely on'' @
     '' organizing the information hierarchically without additional'' @
     '' explanations:\<newline>'' @
     ''\<newline>'' @
     ''            Desired output format:\<newline>'' @
     ''            {{\<newline>'' @
     ''            "Thesis Statement": "...",\<newline>'' @
     ''            "Supporting Arguments": [\<newline>'' @
     ''                {{\<newline>'' @
     ''                "Argument": "...",\<newline>'' @
     ''                "Evidence": [\<newline>'' @
     ''                    "...", "...", "...", ...\<newline>'' @
     ''                ]\<newline>'' @
     ''                }},\<newline>'' @
     ''                {{\<newline>'' @
     ''                "Argument": "...",\<newline>'' @
     ''                "Evidence": [\<newline>'' @
     ''                    "...", "...", "...", ...\<newline>'' @
     ''                ]\<newline>'' @
     ''                }},\<newline>'' @
     ''                ...\<newline>'' @
     ''            ]\<newline>'' @
     ''            }}\<newline>'' @
     ''\<newline>'' @
     ''            Statements:\<newline>'' @
     ''            ```{statements}```''\<close>

text \<open>
  \<^verbatim>\<open>transcript2insights\<close>: the two templates are formatted with the chunk, then
  \<^verbatim>\<open>self.chat\<close> is applied to the messages and \<^verbatim>\<open>.content\<close> of the answer is returned.
\<close>

definition transcript2insights :: "outliner \<Rightarrow> string \<Rightarrow> (exn + string) \<times> outliner" where
  "transcript2insights self transcript =
     (case format_messages insights_system_template insights_human_template
             [(''transcript'', transcript)] of
        Inl e \<Rightarrow> (Inl e, self)
      | Inr messages \<Rightarrow>
          (case call_obj (chat self) messages of
             (Inl e, chat1) \<Rightarrow> (Inl e, self\<lparr>chat := chat1\<rparr>)
           | (Inr result, chat1) \<Rightarrow> (Inr (content result), self\<lparr>chat := chat1\<rparr>)))"

text \<open>
  \<^verbatim>\<open>create_essay_insights\<close>: the \<^verbatim>\<open>for\<close> loop over the chunks, with the accumulated
  \<^verbatim>\<open>response\<close> as an argument. An exception of an extraction leaves the loop.
\<close>

fun essay_insights_loop ::
  "outliner \<Rightarrow> string \<Rightarrow> document list \<Rightarrow> (exn + string) \<times> outliner" where
  "essay_insights_loop self response [] = (Inr response, self)"
| "essay_insights_loop self response (doc # docs) =
     (case transcript2insights self (page_content doc) of
        (Inl e, self1) \<Rightarrow> (Inl e, self1)
      | (Inr insights, self1) \<Rightarrow>
          essay_insights_loop self1 (join ''\<newline>'' [response, insights]) docs)"

definition create_essay_insights ::
  "outliner \<Rightarrow> document list \<Rightarrow> bool \<Rightarrow> (exn + string) \<times> outliner" where
  "create_essay_insights self transcript_chunks verbose =
     essay_insights_loop self [] transcript_chunks"

definition create_blueprint :: "outliner \<Rightarrow> string \<Rightarrow> bool \<Rightarrow> (exn + string) \<times> outliner" where
  "create_blueprint self statements verbose =
     (case format_messages blueprint_system_template blueprint_human_template
             [(''statements'', statements)] of
        Inl e \<Rightarrow> (Inl e, self)
      | Inr messages \<Rightarrow>
          (case call_obj (chat self) messages of
             (Inl e, chat1) \<Rightarrow> (Inl e, self\<lparr>chat := chat1\<rparr>)
           | (Inr outline, chat1) \<Rightarrow> (Inr (content outline), self\<lparr>chat := chat1\<rparr>)))"

text \<open>
  \<^verbatim>\<open>full_transcript2outline_json\<close>: chunk with the default sizes of
  \<^verbatim>\<open>transcript_splitter\<close> (3000 and 200), extract, synthesise.
\<close>

definition full_transcript2outline_json ::
  "(int \<Rightarrow> int \<Rightarrow> string list \<Rightarrow> exn + document list) \<Rightarrow> outliner \<Rightarrow> bool \<Rightarrow>
   (exn + string) \<times> outliner" where
  "full_transcript2outline_json markdown_splitter self verbose =
     (case transcript_splitter markdown_splitter self 3000 200 of
        Inl e \<Rightarrow> (Inl e, self)
      | Inr transcript_docs \<Rightarrow>
          (case create_essay_insights self transcript_docs verbose of
             (Inl e, self1) \<Rightarrow> (Inl e, self1)
           | (Inr essay_insights, self1) \<Rightarrow> create_blueprint self1 essay_insights verbose))"

section \<open>Contracts and concrete instances\<close>

text \<open>
  The number of completion requests an object stored in \<^verbatim>\<open>self.chat\<close> has received.
\<close>

fun completion_calls :: "chat_obj \<Rightarrow> nat" where
  "completion_calls (ChatOllamaObj c) = length (ollama_calls c)"
| "completion_calls (CallableObj f calls) = length calls"


text \<open>
  Concrete backends, objects and library stand-ins, used where a statement is evaluated at
  an explicit input: a backend that raises on every call and one that always generates the
  same text; a callable chat object that answers every request with the same message; a
  splitter that returns every non-empty text as one chunk; an encoding that refuses, as
  \<^verbatim>\<open>encode\<close> of \<^verbatim>\<open>tiktoken\<close> does with its default arguments, a text in which one of
  the special tokens of \<^verbatim>\<open>cl100k_base\<close> occurs, and whose tokens are the single
  characters otherwise; a folder with two transcripts and one other file.
\<close>

definition failing_backend :: "string list list \<Rightarrow> string list \<Rightarrow> exn + string list list" where
  "failing_backend calls prompts = Inl (Exception ''connection refused'')"

definition fixed_backend ::
  "string \<Rightarrow> string list list \<Rightarrow> string list \<Rightarrow> exn + string list list" where
  "fixed_backend reply calls prompts = Inr [[reply]]"

definition failing_client :: chat_ollama where
  "failing_client = ChatOllama_init failing_backend"

definition fixed_reply_stub :: "string \<Rightarrow> message list list \<Rightarrow> message list \<Rightarrow> exn + message" where
  "fixed_reply_stub reply calls messages = Inr (AIMessage reply)"

definition stub_outliner :: "string \<Rightarrow> string \<Rightarrow> outliner" where
  "stub_outliner transcript reply =
     \<lparr>raw_transcript = transcript, chat = CallableObj (fixed_reply_stub reply) []\<rparr>"

definition whole_text_splitter :: "int \<Rightarrow> int \<Rightarrow> string list \<Rightarrow> exn + document list" where
  "whole_text_splitter chunk_size chunk_overlap texts =
     Inr (map (\<lambda>t. \<lparr>page_content = t\<rparr>) (filter (\<lambda>t. t \<noteq> []) texts))"





definition listdir_stub :: "string \<Rightarrow> exn + string list" where
  "listdir_stub path =
     (if path = ''/app/Transcripts'' then Inr [''notes.md'', ''talk.txt'', ''intro.txt'']
      else if path = ''/empty/Transcripts'' then Inr [''notes.md'']
      else Inl (FileNotFoundError path))"

definition read_text_stub :: "string \<Rightarrow> exn + string" where
  "read_text_stub path =
     (if path = ''/app/Transcripts/talk.txt'' then Inr ''Welcome to the talk.''
      else if path = ''/app/Transcripts/intro.txt'' then Inr ''An introduction.''
      else Inl (FileNotFoundError path))"

section \<open>Properties of the formatter and the client\<close>

lemma emit_Nil: "emit [] r = r"
  by (simp add: emit_def split: sum.splits)

lemma emit_Inr: "emit s (Inr t) = Inr (s @ t)"
  by (simp add: emit_def)

lemma emit_emit: "emit a (emit b r) = emit (a @ b) r"
  by (simp add: emit_def split: sum.splits)

lemma emit_eq_Inr: "emit s r = Inr h \<longleftrightarrow> (\<exists>t. r = Inr t \<and> h = s @ t)"
  by (cases r) (auto simp add: emit_def)

text \<open>
  A template can be formatted piece by piece: if a first part formats on its own, the
  whole formats to its text followed by that of the rest.
\<close>

lemma vformat_append:
  "vformat kwargs mode s = Inr h \<Longrightarrow>
   vformat kwargs mode (s @ rest) = emit h (vformat kwargs None rest)"
proof (induction kwargs mode s arbitrary: h rule: vformat.induct)
  case (1 kwargs)
  then show ?case by (simp add: emit_Nil)
next
  case (2 kwargs c cs)
  show ?case
  proof (cases "c = CHR ''{''")
    case True
    note open_brace = this
    show ?thesis
    proof (cases cs)
      case Nil
      with open_brace "2.prems" show ?thesis by simp
    next
      case (Cons d ds)
      show ?thesis
      proof (cases "d = CHR ''{''")
        case True
        with open_brace Cons "2.prems" obtain t where
          t: "vformat kwargs None ds = Inr t" and h: "h = ''{'' @ t"
          by (auto simp add: emit_eq_Inr)
        from "2.IH"(1) [OF open_brace Cons True t]
        have "vformat kwargs None (ds @ rest) = emit t (vformat kwargs None rest)" .
        with open_brace Cons True h show ?thesis by (simp add: emit_emit)
      next
        case False
        with open_brace Cons "2.prems" have "vformat kwargs (Some []) cs = Inr h" by simp
        from "2.IH"(2) [OF open_brace Cons False this]
        have "vformat kwargs (Some []) (cs @ rest) = emit h (vformat kwargs None rest)" .
        with open_brace Cons False show ?thesis by simp
      qed
    qed
  next
    case False
    note no_open = this
    show ?thesis
    proof (cases "c = CHR ''}''")
      case True
      note close_brace = this
      show ?thesis
      proof (cases cs)
        case Nil
        with no_open close_brace "2.prems" show ?thesis by simp
      next
        case (Cons d ds)
        show ?thesis
        proof (cases "d = CHR ''}''")
          case True
          with no_open close_brace Cons "2.prems" obtain t where
            t: "vformat kwargs None ds = Inr t" and h: "h = ''}'' @ t"
            by (auto simp add: emit_eq_Inr)
          from "2.IH"(3) [OF no_open close_brace Cons True t]
          have "vformat kwargs None (ds @ rest) = emit t (vformat kwargs None rest)" .
          with no_open close_brace Cons True h show ?thesis by (simp add: emit_emit)
        next
          case False
          with no_open close_brace Cons "2.prems" show ?thesis by simp
        qed
      qed
    next
      case False
      with no_open "2.prems" obtain t where
        t: "vformat kwargs None cs = Inr t" and h: "h = [c] @ t"
        by (auto simp add: emit_eq_Inr)
      from "2.IH"(4) [OF no_open False t]
      have "vformat kwargs None (cs @ rest) = emit t (vformat kwargs None rest)" .
      with no_open False h show ?thesis by (simp add: emit_emit)
    qed
  qed
next
  case (3 kwargs field)
  then show ?case by simp
next
  case (4 kwargs field c cs)
  show ?case
  proof (cases "c = CHR ''}''")
    case True
    note close_brace = this
    show ?thesis
    proof (cases "map_of kwargs field")
      case None
      with close_brace "4.prems" show ?thesis by simp
    next
      case (Some v)
      with close_brace "4.prems" obtain t where
        t: "vformat kwargs None cs = Inr t" and h: "h = v @ t"
        by (auto simp add: emit_eq_Inr)
      from "4.IH"(1) [OF close_brace Some t]
      have "vformat kwargs None (cs @ rest) = emit t (vformat kwargs None rest)" .
      with close_brace Some h show ?thesis by (simp add: emit_emit)
    qed
  next
    case False
    with "4.prems" have "vformat kwargs (Some (field @ [c])) cs = Inr h" by simp
    from "4.IH"(2) [OF False this]
    have "vformat kwargs (Some (field @ [c])) (cs @ rest) = emit h (vformat kwargs None rest)" .
    with False show ?thesis by simp
  qed
qed

lemma vformat_pieces:
  "\<not> isl (vformat kwargs None s) \<Longrightarrow>
   vformat kwargs None (s @ rest) = emit (projr (vformat kwargs None s)) (vformat kwargs None rest)"
  using vformat_append [of kwargs None s "projr (vformat kwargs None s)" rest]
  by (cases "vformat kwargs None s") auto

lemma insights_messages_ok:
  "\<exists>messages. format_messages insights_system_template insights_human_template
      [(''transcript'', t)] = Inr messages"
proof -
  have "\<exists>s. format_template insights_system_template [(''transcript'', t)] = Inr s"
    by (simp add: format_template_def insights_system_template_def vformat_pieces emit_Inr
        del: append.simps)
  moreover have "\<exists>h. format_template insights_human_template [(''transcript'', t)] = Inr h"
    by (simp add: format_template_def insights_human_template_def vformat_pieces emit_Inr
        del: append.simps)
  ultimately show ?thesis
    by (auto simp add: format_messages_def)
qed

lemma blueprint_messages_ok:
  "\<exists>messages. format_messages blueprint_system_template blueprint_human_template
      [(''statements'', t)] = Inr messages"
proof -
  have "\<exists>s. format_template blueprint_system_template [(''statements'', t)] = Inr s"
    by (simp add: format_template_def blueprint_system_template_def emit_Inr)
  moreover have "\<exists>h. format_template blueprint_human_template [(''statements'', t)] = Inr h"
    by (simp add: format_template_def blueprint_human_template_def vformat_pieces emit_Inr
        del: append.simps)
  ultimately show ?thesis
    by (auto simp add: format_messages_def)
qed

text \<open>The two ways a call of \<^verbatim>\<open>self.chat\<close> can go, for the extraction and the synthesis.\<close>

lemma transcript2insights_ChatOllama:
  assumes "chat self = ChatOllamaObj c"
  shows \<open>transcript2insights self t =
           (Inl (TypeError ''\'ChatOllama\' object is not callable''), self)\<close>
proof -
  obtain messages where "format_messages insights_system_template insights_human_template
      [(''transcript'', t)] = Inr messages"
    using insights_messages_ok by blast
  with assms show ?thesis
    by (simp add: transcript2insights_def)
qed

lemma transcript2insights_Callable:
  assumes "chat self = CallableObj f calls"
      and "\<forall>calls messages. f calls messages = Inr (AIMessage reply)"
  shows "\<exists>messages. transcript2insights self t =
           (Inr reply, self\<lparr>chat := CallableObj f (calls @ [messages])\<rparr>)"
proof -
  obtain messages where "format_messages insights_system_template insights_human_template
      [(''transcript'', t)] = Inr messages"
    using insights_messages_ok by blast
  with assms have "transcript2insights self t =
      (Inr reply, self\<lparr>chat := CallableObj f (calls @ [messages])\<rparr>)"
    by (simp add: transcript2insights_def)
  then show ?thesis by blast
qed

lemma create_blueprint_ChatOllama:
  assumes "chat self = ChatOllamaObj c"
  shows \<open>create_blueprint self statements verbose =
           (Inl (TypeError ''\'ChatOllama\' object is not callable''), self)\<close>
proof -
  obtain messages where "format_messages blueprint_system_template blueprint_human_template
      [(''statements'', statements)] = Inr messages"
    using blueprint_messages_ok by blast
  with assms show ?thesis
    by (simp add: create_blueprint_def)
qed

lemma create_blueprint_Callable:
  assumes "chat self = CallableObj f calls"
      and "\<forall>calls messages. f calls messages = Inr (AIMessage reply)"
  shows "\<exists>messages. create_blueprint self statements verbose =
           (Inr reply, self\<lparr>chat := CallableObj f (calls @ [messages])\<rparr>)"
proof -
  obtain messages where "format_messages blueprint_system_template blueprint_human_template
      [(''statements'', statements)] = Inr messages"
    using blueprint_messages_ok by blast
  with assms have "create_blueprint self statements verbose =
      (Inr reply, self\<lparr>chat := CallableObj f (calls @ [messages])\<rparr>)"
    by (simp add: create_blueprint_def)
  then show ?thesis by blast
qed

text \<open>
  With a callable object that always answers \<open>reply\<close>, the loop of
  \<^verbatim>\<open>create_essay_insights\<close> appends a line break and \<open>reply\<close> once per chunk, and the
  object has received one request per chunk.
\<close>

lemma essay_insights_loop_Callable:
  assumes "\<forall>calls messages. f calls messages = Inr (AIMessage reply)"
  shows "chat self = CallableObj f calls \<Longrightarrow>
         \<exists>self1. essay_insights_loop self response docs =
                   (Inr (response @ concat (map (\<lambda>d. ''\<newline>'' @ reply) docs)), self1)
               \<and> completion_calls (chat self1) = length calls + length docs"
proof (induction docs arbitrary: self response calls)
  case Nil
  then show ?case by simp
next
  case (Cons doc docs)
  from transcript2insights_Callable [OF Cons.prems assms]
  obtain messages where step: "transcript2insights self (page_content doc) =
      (Inr reply, self\<lparr>chat := CallableObj f (calls @ [messages])\<rparr>)"
    by blast
  let ?self1 = "self\<lparr>chat := CallableObj f (calls @ [messages])\<rparr>"
  have "chat ?self1 = CallableObj f (calls @ [messages])" by simp
  from Cons.IH [OF this, of "response @ ''\<newline>'' @ reply"]
  obtain self2 where
    "essay_insights_loop ?self1 (response @ ''\<newline>'' @ reply) docs =
       (Inr ((response @ ''\<newline>'' @ reply) @ concat (map (\<lambda>d. ''\<newline>'' @ reply) docs)), self2)"
    and "completion_calls (chat self2) = length (calls @ [messages]) + length docs"
    by blast
  with step show ?case by simp
qed

lemma generate_try_backend_raises:
  assumes "ollama self (ollama_calls self) [prompt] = Inl e"
  shows "generate_try self prompt =
           (Inl e, self\<lparr>ollama_calls := ollama_calls self @ [[prompt]]\<rparr>)"
  using assms by (simp add: generate_try_def ollama_generate_def)

lemma generate_response_backend_raises:
  assumes "ollama self (ollama_calls self)
             [format_prompt (add_to_history self (''User: '' @ user_input))] = Inl e"
  shows \<open>generate_response self user_input =
           (Inr ''Sorry, I couldn\'t generate a response.'',
            (add_to_history self (''User: '' @ user_input))
              \<lparr>ollama_calls := ollama_calls self @
                 [[format_prompt (add_to_history self (''User: '' @ user_input))]]\<rparr>)\<close>
proof -
  let ?self1 = "add_to_history self (''User: '' @ user_input)"
  have "ollama ?self1 (ollama_calls ?self1) [format_prompt ?self1] = Inl e"
    using assms by (simp add: add_to_history_def)
  then have "generate_try ?self1 (format_prompt ?self1)
               = (Inl e, ?self1\<lparr>ollama_calls := ollama_calls ?self1 @ [[format_prompt ?self1]]\<rparr>)"
    by (rule generate_try_backend_raises)
  then show ?thesis
    by (simp add: generate_response_def Let_def add_to_history_def)
qed

section \<open>The completion client under a failing backend\<close>

text \<open>
  Claim C1. Whenever the backend raises an exception during the completion call,
  \<^verbatim>\<open>generate_response\<close> returns the fixed reply
  \<^verbatim>\<open>"Sorry, I couldn't generate a response."\<close> as an ordinary value: no exception reaches
  the caller.
\<close>

theorem generate_response_sentinel_on_backend_exception:
  assumes "ollama self (ollama_calls self)
             [format_prompt (add_to_history self (''User: '' @ user_input))] = Inl e"
  shows \<open>fst (generate_response self user_input) =
           Inr ''Sorry, I couldn\'t generate a response.''\<close>
  using generate_response_backend_raises [OF assms] by simp

theorem generate_response_sentinel_witness:
  \<open>ollama failing_client (ollama_calls failing_client)
     [format_prompt (add_to_history failing_client (''User: '' @ ''hi''))]
     = Inl (Exception ''connection refused'')
   \<and> fst (generate_response failing_client ''hi'') =
       Inr ''Sorry, I couldn\'t generate a response.''\<close>
proof -
  have raises: "ollama failing_client (ollama_calls failing_client)
     [format_prompt (add_to_history failing_client (''User: '' @ ''hi''))]
     = Inl (Exception ''connection refused'')"
    by (simp add: failing_client_def ChatOllama_init_def failing_backend_def)
  from generate_response_sentinel_on_backend_exception [OF raises] raises show ?thesis
    by simp
qed

text \<open>
  Claim C2, as stated, asks that after a failed call the history holds the user turn and
  the fixed failure reply as a bot turn. The handler returns the reply without recording
  it: for the client whose backend refuses the connection, the history after the call is
  the user turn alone, and the reply is in it neither as a bot turn nor bare.
\<close>

theorem failure_history_omits_sentinel:
  \<open>conversation_history (snd (generate_response failing_client ''hi'')) = [''User: hi'']
   \<and> ''Bot: Sorry, I couldn\'t generate a response.''
        \<notin> set (conversation_history (snd (generate_response failing_client ''hi'')))
   \<and> ''Sorry, I couldn\'t generate a response.''
        \<notin> set (conversation_history (snd (generate_response failing_client ''hi'')))\<close>
  by (simp add: generate_response_def generate_try_def ollama_generate_def add_to_history_def
      format_prompt_def failing_client_def ChatOllama_init_def failing_backend_def)

text \<open>
  Claim C2, amended. Whenever the backend raises an exception during the completion call,
  the history after \<^verbatim>\<open>generate_response\<close> is the history before it followed by the user
  turn \<^verbatim>\<open>"User: ..."\<close> and nothing else: the failure reply goes to the caller only, so
  the next prompt carries the user turn without a bot turn.
\<close>

theorem failure_history_user_turn_only:
  assumes "ollama self (ollama_calls self)
             [format_prompt (add_to_history self (''User: '' @ user_input))] = Inl e"
  shows "conversation_history (snd (generate_response self user_input))
           = conversation_history self @ [''User: '' @ user_input]"
  using generate_response_backend_raises [OF assms] by (simp add: add_to_history_def)

theorem failure_history_user_turn_only_witness:
  \<open>ollama failing_client (ollama_calls failing_client)
     [format_prompt (add_to_history failing_client (''User: '' @ ''hi''))]
     = Inl (Exception ''connection refused'')
   \<and> conversation_history (snd (generate_response failing_client ''hi''))
       = conversation_history failing_client @ [''User: '' @ ''hi'']\<close>
proof -
  have raises: "ollama failing_client (ollama_calls failing_client)
     [format_prompt (add_to_history failing_client (''User: '' @ ''hi''))]
     = Inl (Exception ''connection refused'')"
    by (simp add: failing_client_def ChatOllama_init_def failing_backend_def)
  from failure_history_user_turn_only [OF raises] raises show ?thesis
    by simp
qed

section \<open>Extraction and the pipeline\<close>

text \<open>
  Claim C3, as stated, asks that a run on an empty transcript (an empty chunk sequence)
  fails with an input-validation error before any completion request. The pipeline has no
  such check. With a callable chat object the run on the empty transcript succeeds: it
  returns the object's answer to the synthesis request, the one request it makes. With
  the \<^verbatim>\<open>ChatOllama\<close> the constructor stores, the run ends in the \<^verbatim>\<open>TypeError\<close> of the
  synthesis call, which is no complaint about the input.
\<close>

theorem empty_transcript_reaches_synthesis:
  \<open>fst (full_transcript2outline_json whole_text_splitter (stub_outliner [] ''{}'') True)
     = Inr ''{}''
   \<and> completion_calls (chat (snd
         (full_transcript2outline_json whole_text_splitter (stub_outliner [] ''{}'') True)))
     = 1
   \<and> fst (full_transcript2outline_json whole_text_splitter
         \<lparr>raw_transcript = [], chat = ChatOllamaObj (ChatOllama_init (fixed_backend ''{}''))\<rparr>
         True)
     = Inl (TypeError ''\'ChatOllama\' object is not callable'')\<close>
proof -
  let ?stub = "stub_outliner [] ''{}''"
  let ?built = "\<lparr>raw_transcript = [],
                  chat = ChatOllamaObj (ChatOllama_init (fixed_backend ''{}''))\<rparr>"
  have stub_run: "full_transcript2outline_json whole_text_splitter ?stub True
                    = create_blueprint ?stub [] True"
    by (simp add: full_transcript2outline_json_def transcript_splitter_def
        whole_text_splitter_def create_essay_insights_def stub_outliner_def)
  have built_run: "full_transcript2outline_json whole_text_splitter ?built True
                     = create_blueprint ?built [] True"
    by (simp add: full_transcript2outline_json_def transcript_splitter_def
        whole_text_splitter_def create_essay_insights_def)
  have "chat ?stub = CallableObj (fixed_reply_stub ''{}'') []"
    by (simp add: stub_outliner_def)
  moreover have "\<forall>calls messages. fixed_reply_stub ''{}'' calls messages = Inr (AIMessage ''{}'')"
    by (simp add: fixed_reply_stub_def)
  ultimately obtain messages where
    "create_blueprint ?stub [] True =
       (Inr ''{}'', ?stub\<lparr>chat := CallableObj (fixed_reply_stub ''{}'') ([] @ [messages])\<rparr>)"
    using create_blueprint_Callable by blast
  with stub_run have
    "fst (full_transcript2outline_json whole_text_splitter ?stub True) = Inr ''{}''"
    "completion_calls (chat (snd (full_transcript2outline_json whole_text_splitter ?stub True)))
       = 1"
    by simp_all
  moreover have \<open>fst (full_transcript2outline_json whole_text_splitter ?built True)
                   = Inl (TypeError ''\'ChatOllama\' object is not callable'')\<close>
    using built_run create_blueprint_ChatOllama [of ?built _ "[]" True] by simp
  ultimately show ?thesis by simp
qed

text \<open>
  Claim C3, amended. For an empty chunk sequence the pipeline validates nothing: the batch
  extraction makes no completion request (it returns the empty text and leaves the object
  as it was), and the run goes on to the synthesis step, so that its result is the result
  of \<^verbatim>\<open>create_blueprint\<close> on the empty insight text.
\<close>

theorem empty_chunks_go_to_synthesis:
  assumes "transcript_splitter markdown_splitter self 3000 200 = Inr []"
  shows "create_essay_insights self [] verbose = (Inr [], self)
       \<and> full_transcript2outline_json markdown_splitter self verbose
           = create_blueprint self [] verbose"
  using assms by (simp add: full_transcript2outline_json_def create_essay_insights_def)

theorem empty_chunks_go_to_synthesis_witness:
  "transcript_splitter whole_text_splitter (stub_outliner [] ''{}'') 3000 200 = Inr []
   \<and> create_essay_insights (stub_outliner [] ''{}'') [] True
       = (Inr [], stub_outliner [] ''{}'')
   \<and> full_transcript2outline_json whole_text_splitter (stub_outliner [] ''{}'') True
       = create_blueprint (stub_outliner [] ''{}'') [] True"
proof -
  have no_chunks:
    "transcript_splitter whole_text_splitter (stub_outliner [] ''{}'') 3000 200 = Inr []"
    by (simp add: transcript_splitter_def whole_text_splitter_def stub_outliner_def)
  from empty_chunks_go_to_synthesis [OF no_chunks, of True] no_chunks show ?thesis
    by simp
qed

text \<open>
  Claim C4, as stated, expects \<^verbatim>\<open>"- fact A\n- fact B\n\n- fact A\n- fact B"\<close> from two
  chunks when every extraction yields \<^verbatim>\<open>"- fact A\n- fact B"\<close>. The loop joins the
  accumulated text, which starts empty, and each result with one line break, so the
  result starts with a line break and has no blank line between the two results.
\<close>

theorem two_chunks_joined_by_single_newlines:
  "fst (create_essay_insights (stub_outliner ''a talk'' ''- fact A\<newline>- fact B'')
          [\<lparr>page_content = ''first chunk''\<rparr>, \<lparr>page_content = ''second chunk''\<rparr>] True)
     = Inr ''\<newline>- fact A\<newline>- fact B\<newline>- fact A\<newline>- fact B''
   \<and> fst (create_essay_insights (stub_outliner ''a talk'' ''- fact A\<newline>- fact B'')
          [\<lparr>page_content = ''first chunk''\<rparr>, \<lparr>page_content = ''second chunk''\<rparr>] True)
     \<noteq> Inr ''- fact A\<newline>- fact B\<newline>\<newline>- fact A\<newline>- fact B''"
proof -
  let ?self = "stub_outliner ''a talk'' ''- fact A\<newline>- fact B''"
  let ?docs = "[\<lparr>page_content = ''first chunk''\<rparr>, \<lparr>page_content = ''second chunk''\<rparr>]"
  have "chat ?self = CallableObj (fixed_reply_stub ''- fact A\<newline>- fact B'') []"
    by (simp add: stub_outliner_def)
  moreover have "\<forall>calls messages.
      fixed_reply_stub ''- fact A\<newline>- fact B'' calls messages
        = Inr (AIMessage ''- fact A\<newline>- fact B'')"
    by (simp add: fixed_reply_stub_def)
  ultimately obtain self1 where
    "essay_insights_loop ?self [] ?docs =
       (Inr ([] @ concat (map (\<lambda>d. ''\<newline>'' @ ''- fact A\<newline>- fact B'') ?docs)), self1)"
    using essay_insights_loop_Callable by blast
  then have "fst (create_essay_insights ?self ?docs True)
               = Inr ''\<newline>- fact A\<newline>- fact B\<newline>- fact A\<newline>- fact B''"
    by (simp add: create_essay_insights_def)
  then show ?thesis by simp
qed

text \<open>
  Claim C4, amended. For two chunks and a callable chat object that answers every request
  with the same text \<open>reply\<close>, \<^verbatim>\<open>create_essay_insights\<close> returns a line break, \<open>reply\<close>,
  a line break and \<open>reply\<close>: the results in chunk order, each preceded by one line break,
  so with a leading line break, no blank line between them and nothing after the last.
  For the text \<^verbatim>\<open>"- fact A\n- fact B"\<close> that is \<^verbatim>\<open>"\n- fact A\n- fact B\n- fact A\n- fact B"\<close>.
\<close>

theorem create_essay_insights_two_chunks:
  assumes "chat self = CallableObj f calls"
      and "\<forall>calls messages. f calls messages = Inr (AIMessage reply)"
  shows "fst (create_essay_insights self [first, second] verbose)
           = Inr (''\<newline>'' @ reply @ ''\<newline>'' @ reply)"
proof -
  from essay_insights_loop_Callable [OF assms(2) assms(1), of "[]" "[first, second]"]
  obtain self1 where "essay_insights_loop self [] [first, second] =
      (Inr ([] @ concat (map (\<lambda>d. ''\<newline>'' @ reply) [first, second])), self1)"
    by blast
  then show ?thesis
    by (simp add: create_essay_insights_def)
qed

theorem create_essay_insights_two_chunks_witness:
  "chat (stub_outliner ''a talk'' ''- fact A\<newline>- fact B'')
     = CallableObj (fixed_reply_stub ''- fact A\<newline>- fact B'') []
   \<and> fixed_reply_stub ''- fact A\<newline>- fact B'' [] []
       = Inr (AIMessage ''- fact A\<newline>- fact B'')
   \<and> fst (create_essay_insights (stub_outliner ''a talk'' ''- fact A\<newline>- fact B'')
          [\<lparr>page_content = ''first chunk''\<rparr>, \<lparr>page_content = ''second chunk''\<rparr>] False)
       = Inr ''\<newline>- fact A\<newline>- fact B\<newline>- fact A\<newline>- fact B''"
proof -
  have object: "chat (stub_outliner ''a talk'' ''- fact A\<newline>- fact B'')
     = CallableObj (fixed_reply_stub ''- fact A\<newline>- fact B'') []"
    by (simp add: stub_outliner_def)
  have answers: "\<forall>calls messages.
      fixed_reply_stub ''- fact A\<newline>- fact B'' calls messages
        = Inr (AIMessage ''- fact A\<newline>- fact B'')"
    by (simp add: fixed_reply_stub_def)
  from create_essay_insights_two_chunks [OF object answers,
      of "\<lparr>page_content = ''first chunk''\<rparr>" "\<lparr>page_content = ''second chunk''\<rparr>" False]
    object answers
  show ?thesis by simp
qed

text \<open>
  Claim C7 says that \<^verbatim>\<open>transcript2insights\<close> returns the text the backend generates for
  the extraction prompt. The method applies \<^verbatim>\<open>self.chat\<close> to the prompt messages, and
  the constructor has stored a \<^verbatim>\<open>ChatOllama\<close> there, which cannot be applied: for every
  transcript, every client state and every chunk the call raises \<^verbatim>\<open>TypeError\<close>, and
  the client is left as it was, so the backend is never asked.
\<close>

theorem transcript2insights_raises_TypeError:
  \<open>transcript2insights \<lparr>raw_transcript = transcript, chat = ChatOllamaObj client\<rparr> chunk
     = (Inl (TypeError ''\'ChatOllama\' object is not callable''),
        \<lparr>raw_transcript = transcript, chat = ChatOllamaObj client\<rparr>)\<close>
  by (rule transcript2insights_ChatOllama [of _ client]) simp

section \<open>Token counting and construction\<close>




text \<open>
  Claim C10. Given the listing of the Transcripts folder, constructing an
  \<^verbatim>\<open>Outliner\<close>
  \<^item> raises \<^verbatim>\<open>ValueError\<close> when the folder has no \<^verbatim>\<open>.txt\<close> file;
  \<^item> raises \<^verbatim>\<open>FileNotFoundError\<close> when the folder has such files and a file name is
    given (a non-empty string) that is not among them;
  \<^item> otherwise reads the given file, or the first listed \<^verbatim>\<open>.txt\<close> file when none is
    given, and keeps its contents as the transcript. The file system is only read, and
    the client stored next to the transcript is new: empty history, no request made.
\<close>

theorem Outliner_init_cases:
  assumes "listdir (path_join script_dir ''Transcripts'') = Inr names"
  shows
    "(filter (\<lambda>f. endswith f ''.txt'') names = [] \<longrightarrow>
        Outliner_init script_dir listdir read_text backend input_filename
          = Inl (ValueError ''No transcript files found in the folder.''))
   \<and> (filter (\<lambda>f. endswith f ''.txt'') names \<noteq> [] \<and> input_filename = Some name \<and> name \<noteq> []
        \<and> name \<notin> set (filter (\<lambda>f. endswith f ''.txt'') names) \<longrightarrow>
        Outliner_init script_dir listdir read_text backend input_filename
          = Inl (FileNotFoundError
                  (''The specified file '' @ name @ '' does not exist in the Transcripts folder.'')))
   \<and> (input_filename = Some name \<and> name \<noteq> []
        \<and> name \<in> set (filter (\<lambda>f. endswith f ''.txt'') names)
        \<and> read_text (path_join (path_join script_dir ''Transcripts'') name) = Inr contents \<longrightarrow>
        Outliner_init script_dir listdir read_text backend input_filename
          = Inr \<lparr>raw_transcript = contents,
                 chat = ChatOllamaObj
                   \<lparr>ollama = backend, ollama_calls = [], conversation_history = []\<rparr>\<rparr>)
   \<and> (filter (\<lambda>f. endswith f ''.txt'') names = first # others
        \<and> (input_filename = None \<or> input_filename = Some [])
        \<and> read_text (path_join (path_join script_dir ''Transcripts'') first) = Inr contents \<longrightarrow>
        Outliner_init script_dir listdir read_text backend input_filename
          = Inr \<lparr>raw_transcript = contents,
                 chat = ChatOllamaObj
                   \<lparr>ollama = backend, ollama_calls = [], conversation_history = []\<rparr>\<rparr>)"
proof -
  define folder where "folder = path_join script_dir ''Transcripts''"
  define files where "files = filter (\<lambda>f. endswith f ''.txt'') names"
  have init: "Outliner_init script_dir listdir read_text backend given_name =
      (case select_transcript folder files given_name of
         Inl e \<Rightarrow> Inl e
       | Inr transcript_file_path \<Rightarrow>
           (case read_text transcript_file_path of
              Inl e \<Rightarrow> Inl e
            | Inr contents \<Rightarrow>
                Inr \<lparr>raw_transcript = contents,
                     chat = ChatOllamaObj (ChatOllama_init backend)\<rparr>))"
    for given_name
    using assms
    by (simp add: Outliner_init_def Let_def folder_def files_def)
  have no_files: "Outliner_init script_dir listdir read_text backend input_filename
      = Inl (ValueError ''No transcript files found in the folder.'')"
    if "files = []"
    using that by (simp add: init select_transcript_def)
  have missing: "Outliner_init script_dir listdir read_text backend input_filename
      = Inl (FileNotFoundError
              (''The specified file '' @ name @ '' does not exist in the Transcripts folder.''))"
    if "files \<noteq> []" "input_filename = Some name" "name \<noteq> []" "name \<notin> set files"
    using that by (cases files) (simp_all add: init select_transcript_def truthy_def)
  have given: "Outliner_init script_dir listdir read_text backend input_filename
      = Inr \<lparr>raw_transcript = contents,
             chat = ChatOllamaObj
               \<lparr>ollama = backend, ollama_calls = [], conversation_history = []\<rparr>\<rparr>"
    if "input_filename = Some name" "name \<noteq> []" "name \<in> set files"
       "read_text (path_join folder name) = Inr contents"
    using that
    by (cases files) (simp_all add: init select_transcript_def truthy_def ChatOllama_init_def)
  have fallback: "Outliner_init script_dir listdir read_text backend input_filename
      = Inr \<lparr>raw_transcript = contents,
             chat = ChatOllamaObj
               \<lparr>ollama = backend, ollama_calls = [], conversation_history = []\<rparr>\<rparr>"
    if "files = first # others" "input_filename = None \<or> input_filename = Some []"
       "read_text (path_join folder first) = Inr contents"
    using that by (auto simp add: init select_transcript_def truthy_def ChatOllama_init_def)
  from no_files missing given fallback show ?thesis
    unfolding folder_def files_def by blast
qed

theorem Outliner_init_cases_witness:
  "listdir_stub (path_join ''/empty'' ''Transcripts'') = Inr [''notes.md'']
   \<and> Outliner_init ''/empty'' listdir_stub read_text_stub failing_backend (Some ''talk.txt'')
       = Inl (ValueError ''No transcript files found in the folder.'')
   \<and> listdir_stub (path_join ''/app'' ''Transcripts'')
       = Inr [''notes.md'', ''talk.txt'', ''intro.txt'']
   \<and> Outliner_init ''/app'' listdir_stub read_text_stub failing_backend (Some ''notes.md'')
       = Inl (FileNotFoundError
               ''The specified file notes.md does not exist in the Transcripts folder.'')
   \<and> Outliner_init ''/app'' listdir_stub read_text_stub failing_backend (Some ''intro.txt'')
       = Inr \<lparr>raw_transcript = ''An introduction.'',
              chat = ChatOllamaObj
                \<lparr>ollama = failing_backend, ollama_calls = [], conversation_history = []\<rparr>\<rparr>
   \<and> Outliner_init ''/app'' listdir_stub read_text_stub failing_backend None
       = Inr \<lparr>raw_transcript = ''Welcome to the talk.'',
              chat = ChatOllamaObj
                \<lparr>ollama = failing_backend, ollama_calls = [], conversation_history = []\<rparr>\<rparr>"
proof -
  have empty_dir: "listdir_stub (path_join ''/empty'' ''Transcripts'') = Inr [''notes.md'']"
    by (simp add: listdir_stub_def path_join_def endswith_def)
  have app_dir: "listdir_stub (path_join ''/app'' ''Transcripts'')
                   = Inr [''notes.md'', ''talk.txt'', ''intro.txt'']"
    by (simp add: listdir_stub_def path_join_def endswith_def)
  have intro: "read_text_stub (path_join (path_join ''/app'' ''Transcripts'') ''intro.txt'')
                 = Inr ''An introduction.''"
    by (simp add: read_text_stub_def path_join_def endswith_def)
  have talk: "read_text_stub (path_join (path_join ''/app'' ''Transcripts'') ''talk.txt'')
                 = Inr ''Welcome to the talk.''"
    by (simp add: read_text_stub_def path_join_def endswith_def)
  from Outliner_init_cases
      [where listdir = listdir_stub and script_dir = "''/empty''" and read_text = read_text_stub
         and backend = failing_backend and input_filename = "Some ''talk.txt''",
       OF empty_dir]
  have a: "Outliner_init ''/empty'' listdir_stub read_text_stub failing_backend (Some ''talk.txt'')
       = Inl (ValueError ''No transcript files found in the folder.'')"
    by (simp add: endswith_def)
  from Outliner_init_cases
      [where listdir = listdir_stub and script_dir = "''/app''" and read_text = read_text_stub
         and backend = failing_backend and input_filename = "Some ''notes.md''"
         and name = "''notes.md''",
       OF app_dir]
  have b: "Outliner_init ''/app'' listdir_stub read_text_stub failing_backend (Some ''notes.md'')
       = Inl (FileNotFoundError
               ''The specified file notes.md does not exist in the Transcripts folder.'')"
    by (simp add: endswith_def)
  from Outliner_init_cases
      [where listdir = listdir_stub and script_dir = "''/app''" and read_text = read_text_stub
         and backend = failing_backend and input_filename = "Some ''intro.txt''"
         and name = "''intro.txt''" and contents = "''An introduction.''",
       OF app_dir] intro
  have c: "Outliner_init ''/app'' listdir_stub read_text_stub failing_backend (Some ''intro.txt'')
       = Inr \<lparr>raw_transcript = ''An introduction.'',
              chat = ChatOllamaObj
                \<lparr>ollama = failing_backend, ollama_calls = [], conversation_history = []\<rparr>\<rparr>"
    by (simp add: endswith_def)
  from Outliner_init_cases
      [where listdir = listdir_stub and script_dir = "''/app''" and read_text = read_text_stub
         and backend = failing_backend and input_filename = None
         and contents = "''Welcome to the talk.''" and first = "''talk.txt''"
         and others = "[''intro.txt'']",
       OF app_dir] talk
  have d: "Outliner_init ''/app'' listdir_stub read_text_stub failing_backend None
       = Inr \<lparr>raw_transcript = ''Welcome to the talk.'',
              chat = ChatOllamaObj
                \<lparr>ollama = failing_backend, ollama_calls = [], conversation_history = []\<rparr>\<rparr>"
    by (simp add: endswith_def)
  from empty_dir app_dir a b c d show ?thesis by simp
qed

end
